theory Spec2Isabelle
  imports Complex_Main "HOL-Library.Word" "HOL-Library.Log_Nat"
begin

unbundle bit_operations_syntax

chapter \<open>The firmware\<close>

section \<open>Machine types and enumerations\<close>

type_synonym u8 = "8 word"
type_synonym u32 = "32 word"

text \<open>\<^verbatim>\<open>LoggerCodes\<close> (event_logger.h), in the order of the enumeration.\<close>

datatype LoggerCodes =
    SystemRestarted
  | StackOverflow
  | EEPROMWriteOP
  | EEPROMReadOP
  | EEPROMIOException
  | EthoControllerReadOP
  | EthoControllerWriteOP
  | EthoControlIOException
  | UserLoggedIn
  | UserLoggedOut

fun LoggerCodes_value :: "LoggerCodes \<Rightarrow> nat" where
  "LoggerCodes_value SystemRestarted = 0"
| "LoggerCodes_value StackOverflow = 1"
| "LoggerCodes_value EEPROMWriteOP = 2"
| "LoggerCodes_value EEPROMReadOP = 3"
| "LoggerCodes_value EEPROMIOException = 4"
| "LoggerCodes_value EthoControllerReadOP = 5"
| "LoggerCodes_value EthoControllerWriteOP = 6"
| "LoggerCodes_value EthoControlIOException = 7"
| "LoggerCodes_value UserLoggedIn = 8"
| "LoggerCodes_value UserLoggedOut = 9"

section \<open>System state\<close>

text \<open>
  What the firmware does to the two SPI devices is kept as explicit state.

  \<^item> The 25AA1024 EEPROM is its cell array \<open>eeprom\<close> (raw cell contents, indexed by
    the 17 address bits the chip decodes).  A write command stores the byte sent, a read
    command returns the byte stored.
  \<^item> The KSZ8895 switch controller is an environment: \<open>eth_out n\<close> is the byte it
    shifts out on the \<open>n\<close>-th read transaction (the SSI frames are 8 bits wide), and
    every transaction is appended to \<open>bus\<close>, together with the UART messages of the
    functions that are modelled with their output (\<open>UARTprintf_d\<close> is a message with
    one \<^verbatim>\<open>%d\<close> argument).  Progress bars and terminal escape sequences are not
    recorded.
  \<^item> The two FreeRTOS mutexes are booleans (\<open>True\<close> = taken), the logger queue is a
    list of at most \<open>LOGGER_QUEUE_SIZE\<close> codes.
\<close>

datatype bus_op =
    EthoRead u8
  | EthoWrite u8 u32
  | UARTprintf string
  | UARTprintf_d string u32

record sys =
  eeprom :: "nat \<Rightarrow> u8"
  eth_out :: "nat \<Rightarrow> u8"
  eth_reads :: nat
  bus :: "bus_op list"
  SPI0_taken :: bool
  SPI1_taken :: bool
  LoggerQueue :: "LoggerCodes list"
  LoggerTaskAlive :: bool
  LogStatusFlags :: u32
  NextLogSlot :: u32

definition LOGGER_QUEUE_SIZE :: nat where
  "LOGGER_QUEUE_SIZE = 10"

text \<open>
  \<^verbatim>\<open>LogItemEEPROM\<close>: the code is queued when the logger task exists and is ready,
  running or blocked; \<^verbatim>\<open>xQueueSend\<close> with a zero wait drops it when the queue is full.
\<close>

definition LogItemEEPROM :: "LoggerCodes \<Rightarrow> sys \<Rightarrow> sys" where
  "LogItemEEPROM code s =
     (if LoggerTaskAlive s \<and> length (LoggerQueue s) < LOGGER_QUEUE_SIZE
      then s\<lparr>LoggerQueue := LoggerQueue s @ [code]\<rparr>
      else s)"

text \<open>
  \<^verbatim>\<open>xSemaphoreTake(m, 0)\<close> never blocks and its result is ignored by every caller,
  so after the call the mutex is taken whoever holds it; \<^verbatim>\<open>xSemaphoreGive\<close> frees it.
\<close>

definition xSemaphoreTake_SPI0 :: "sys \<Rightarrow> sys" where
  "xSemaphoreTake_SPI0 s = s\<lparr>SPI0_taken := True\<rparr>"

definition xSemaphoreGive_SPI0 :: "sys \<Rightarrow> sys" where
  "xSemaphoreGive_SPI0 s = s\<lparr>SPI0_taken := False\<rparr>"

definition xSemaphoreTake_SPI1 :: "sys \<Rightarrow> sys" where
  "xSemaphoreTake_SPI1 s = s\<lparr>SPI1_taken := True\<rparr>"

definition xSemaphoreGive_SPI1 :: "sys \<Rightarrow> sys" where
  "xSemaphoreGive_SPI1 s = s\<lparr>SPI1_taken := False\<rparr>"

section \<open>Hardware abstraction layer: EEPROM (eee_hal.c)\<close>

text \<open>
  The three address bytes sent are \<open>address >> 16\<close>, \<open>address >> 8\<close> and
  \<open>address\<close>, each masked to eight bits; the chip decodes the low 17 bits.
\<close>

definition eeprom_cell :: "u32 \<Rightarrow> nat" where
  "eeprom_cell address = unat (address AND 0x1FFFF)"

text \<open>The write command and the read command as the chip executes them.\<close>

definition eeprom_write_cmd :: "u32 \<Rightarrow> u8 \<Rightarrow> sys \<Rightarrow> sys" where
  "eeprom_write_cmd address raw s = s\<lparr>eeprom := (eeprom s)(eeprom_cell address := raw)\<rparr>"

definition eeprom_read_cmd :: "u32 \<Rightarrow> sys \<Rightarrow> u32" where
  "eeprom_read_cmd address s = ucast (eeprom s (eeprom_cell address))"

text \<open>
  \<^verbatim>\<open>EEPROMSingleWrite\<close>: log, take the mutex, invert the byte, write it, read the cell
  back and compare it with the inverted byte.
\<close>

definition EEPROMSingleWrite :: "u32 \<Rightarrow> u8 \<Rightarrow> sys \<Rightarrow> bool \<times> sys" where
  "EEPROMSingleWrite address data s0 =
     (let s1 = LogItemEEPROM EEPROMWriteOP s0;
          s2 = xSemaphoreTake_SPI0 s1;
          data' = NOT data;
          s3 = eeprom_write_cmd address data' s2;
          READ_DATA = eeprom_read_cmd address s3
      in if ucast data' = READ_DATA
         then (True, xSemaphoreGive_SPI0 s3)
         else (False, LogItemEEPROM EEPROMIOException (xSemaphoreGive_SPI0 s3)))"

text \<open>\<^verbatim>\<open>EEPROMSingleRead\<close>: returns \<^verbatim>\<open>~READ_DATA\<close>, truncated to \<^verbatim>\<open>uint8_t\<close>.\<close>

definition EEPROMSingleRead :: "u32 \<Rightarrow> sys \<Rightarrow> u8 \<times> sys" where
  "EEPROMSingleRead address s0 =
     (let s1 = LogItemEEPROM EEPROMReadOP s0;
          s2 = xSemaphoreTake_SPI0 s1;
          READ_DATA = eeprom_read_cmd address s2;
          s3 = xSemaphoreGive_SPI0 s2
      in (ucast (NOT READ_DATA), s3))"

text \<open>
  \<^verbatim>\<open>EEPROMBulkWrite\<close>.  The array \<^verbatim>\<open>data\<close> of \<^verbatim>\<open>array_length\<close> bytes is a list.
  The function does not return after a failed single write (\<^verbatim>\<open>while (1)\<close>): that
  is the result \<open>None\<close>.  The first range check returns without giving the mutex back.
\<close>

fun EEPROMBulkWrite_loop :: "u32 \<Rightarrow> u8 list \<Rightarrow> sys \<Rightarrow> (bool \<times> sys) option" where
  "EEPROMBulkWrite_loop start_address [] s = Some (True, xSemaphoreGive_SPI0 s)"
| "EEPROMBulkWrite_loop start_address (d # data) s =
     (if start_address \<ge> 131072
      then Some (False, LogItemEEPROM EEPROMIOException (xSemaphoreGive_SPI0 s))
      else (case EEPROMSingleWrite start_address d s of
              (False, s') \<Rightarrow> None
            | (True, s') \<Rightarrow> EEPROMBulkWrite_loop (start_address + 1) data s'))"

definition EEPROMBulkWrite :: "u32 \<Rightarrow> u8 list \<Rightarrow> sys \<Rightarrow> (bool \<times> sys) option" where
  "EEPROMBulkWrite start_address data s0 =
     (let s1 = LogItemEEPROM EEPROMWriteOP s0;
          s2 = xSemaphoreTake_SPI0 s1
      in if start_address \<ge> 131072
         then Some (False, LogItemEEPROM EEPROMIOException s2)
         else EEPROMBulkWrite_loop start_address data s2)"

text \<open>
  \<^verbatim>\<open>EEPROMBulkRead\<close>: the result holds the bytes stored into \<^verbatim>\<open>output\<close>, in order;
  on the failure paths these are the positions filled so far.
\<close>

fun EEPROMBulkRead_loop :: "u32 \<Rightarrow> nat \<Rightarrow> sys \<Rightarrow> bool \<times> u8 list \<times> sys" where
  "EEPROMBulkRead_loop start_address 0 s = (True, [], xSemaphoreGive_SPI0 s)"
| "EEPROMBulkRead_loop start_address (Suc n) s =
     (if start_address \<ge> 131072
      then (False, [], LogItemEEPROM EEPROMIOException (xSemaphoreGive_SPI0 s))
      else (case EEPROMSingleRead start_address s of
              (v, s') \<Rightarrow>
                (case EEPROMBulkRead_loop (start_address + 1) n s' of
                   (ok, out, s'') \<Rightarrow> (ok, v # out, s''))))"

definition EEPROMBulkRead :: "u32 \<Rightarrow> nat \<Rightarrow> sys \<Rightarrow> bool \<times> u8 list \<times> sys" where
  "EEPROMBulkRead start_address array_length s0 =
     (let s1 = LogItemEEPROM EEPROMReadOP s0;
          s2 = xSemaphoreTake_SPI0 s1
      in if start_address \<ge> 131072
         then (False, [], LogItemEEPROM EEPROMIOException (xSemaphoreGive_SPI0 s2))
         else EEPROMBulkRead_loop start_address array_length s2)"

section \<open>Hardware abstraction layer: switch controller (eee_hal.c)\<close>

text \<open>The byte the controller shifts out on a read, with the transaction recorded.\<close>

definition etho_read_cmd :: "u8 \<Rightarrow> sys \<Rightarrow> u32 \<times> sys" where
  "etho_read_cmd address s =
     (ucast (eth_out s (eth_reads s)),
      s\<lparr>eth_reads := Suc (eth_reads s), bus := bus s @ [EthoRead address]\<rparr>)"

definition EthoControllerSingleRead :: "u8 \<Rightarrow> sys \<Rightarrow> u32 \<times> sys" where
  "EthoControllerSingleRead address s0 =
     (let s1 = LogItemEEPROM EthoControllerReadOP s0;
          s2 = xSemaphoreTake_SPI1 s1;
          (READ_DATA, s3) = etho_read_cmd address s2
      in (READ_DATA, xSemaphoreGive_SPI1 s3))"

definition EthoControllerSingleWrite :: "u8 \<Rightarrow> u32 \<Rightarrow> sys \<Rightarrow> bool \<times> sys" where
  "EthoControllerSingleWrite address data s0 =
     (let s1 = LogItemEEPROM EthoControllerWriteOP s0;
          s2 = xSemaphoreTake_SPI1 s1;
          s3 = s2\<lparr>bus := bus s2 @ [EthoWrite address data]\<rparr>
      in (True, xSemaphoreGive_SPI1 s3))"

text \<open>
  \<^verbatim>\<open>EthoControllerBulkRead\<close>: \<^verbatim>\<open>start_address + count\<close> is computed in \<^verbatim>\<open>int\<close>;
  the register address sent is \<^verbatim>\<open>start_address + i\<close> in an 8-bit frame.  The range
  check returns without giving the mutex back.
\<close>

fun EthoControllerBulkRead_loop :: "u8 \<Rightarrow> nat \<Rightarrow> nat \<Rightarrow> sys \<Rightarrow> u32 list \<times> sys" where
  "EthoControllerBulkRead_loop start_address i 0 s = ([], s)"
| "EthoControllerBulkRead_loop start_address i (Suc n) s =
     (case etho_read_cmd (start_address + of_nat i) s of
        (READ_DATA, s') \<Rightarrow>
          (case EthoControllerBulkRead_loop start_address (Suc i) n s' of
             (out, s'') \<Rightarrow> (READ_DATA # out, s'')))"

definition EthoControllerBulkRead :: "u8 \<Rightarrow> u8 \<Rightarrow> sys \<Rightarrow> bool \<times> u32 list \<times> sys" where
  "EthoControllerBulkRead start_address count s0 =
     (let s1 = LogItemEEPROM EthoControllerReadOP s0;
          s2 = xSemaphoreTake_SPI1 s1
      in if unat start_address + unat count > 255
         then (False, [], s2)
         else (case EthoControllerBulkRead_loop start_address 0 (unat count) s2 of
                 (out, s3) \<Rightarrow> (True, out, xSemaphoreGive_SPI1 s3)))"

text \<open>A state with both mutexes free, used where a concrete state is needed.\<close>

definition idle_sys :: sys where
  "idle_sys =
     \<lparr>eeprom = (\<lambda>_. 0xFF), eth_out = (\<lambda>_. 0), eth_reads = 0, bus = [],
      SPI0_taken = False, SPI1_taken = False, LoggerQueue = [], LoggerTaskAlive = True,
      LogStatusFlags = 0, NextLogSlot = 0x1600\<rparr>"

section \<open>Event logger (event_logger.c)\<close>

definition EEPROM_LOG_BASE :: u32 where
  "EEPROM_LOG_BASE = 0x1600"

definition MAX_LOG_ENTRIES :: u32 where
  "MAX_LOG_ENTRIES = 400"

text \<open>
  The body of \<^verbatim>\<open>LoggerTask\<close> that writes one record: four bytes of tick count, high
  byte first, then the code, at \<^verbatim>\<open>NextLogSlot\<close>; then the slot advances or wraps.
  The results of the five single writes are ignored.
\<close>

definition LoggerTask_log_entry :: "u32 \<Rightarrow> LoggerCodes \<Rightarrow> sys \<Rightarrow> sys" where
  "LoggerTask_log_entry RTOSTime code_issued s0 =
     (let LogTime = [ucast (drop_bit 24 RTOSTime AND 0xFF), ucast (drop_bit 16 RTOSTime AND 0xFF),
                     ucast (drop_bit 8 RTOSTime AND 0xFF), ucast (RTOSTime AND 0xFF)] :: u8 list;
          s1 = fold (\<lambda>eeprom_sector s.
                       snd (EEPROMSingleWrite (NextLogSlot s + of_nat eeprom_sector)
                              (LogTime ! eeprom_sector) s))
                 [0..<4] s0;
          s2 = snd (EEPROMSingleWrite (NextLogSlot s1 + 4)
                      (of_nat (LoggerCodes_value code_issued)) s1)
      in if NextLogSlot s2 + 5 > EEPROM_LOG_BASE + MAX_LOG_ENTRIES
         then s2\<lparr>NextLogSlot := EEPROM_LOG_BASE\<rparr>
         else s2\<lparr>NextLogSlot := NextLogSlot s2 + 5\<rparr>)"

text \<open>
  One pass of the task loop: \<^verbatim>\<open>xQueueReceive\<close> with a zero wait, the filter on
  \<^verbatim>\<open>LogStatusFlags\<close>, and the comparison with the code logged last (a local that
  the task does not initialise, hence an argument).  \<open>RTOSTime\<close> is what
  \<^verbatim>\<open>xTaskGetTickCount\<close> returns.
\<close>

definition LoggerTask_iteration :: "u32 \<Rightarrow> nat \<times> sys \<Rightarrow> nat \<times> sys" where
  "LoggerTask_iteration RTOSTime ls =
     (case ls of (last_code_issued, s) \<Rightarrow>
        (case LoggerQueue s of
           [] \<Rightarrow> (last_code_issued, s)
         | code_issued # queue \<Rightarrow>
             (let s1 = s\<lparr>LoggerQueue := queue\<rparr> in
              if drop_bit (LoggerCodes_value code_issued) (LogStatusFlags s1) AND 1 \<noteq> 0
              then if LoggerCodes_value code_issued \<noteq> last_code_issued
                   then (LoggerCodes_value code_issued,
                         LoggerTask_log_entry RTOSTime code_issued s1)
                   else (last_code_issued, s1)
              else (last_code_issued, s1))))"

text \<open>The records of a list, written one after the other.\<close>

fun LoggerTask_log_entries :: "(u32 \<times> LoggerCodes) list \<Rightarrow> sys \<Rightarrow> sys" where
  "LoggerTask_log_entries [] s = s"
| "LoggerTask_log_entries ((RTOSTime, code_issued) # es) s =
     LoggerTask_log_entries es (LoggerTask_log_entry RTOSTime code_issued s)"

section \<open>I2C command codes (i2c_task.h)\<close>

definition ETHO_PORT1_HARDWARE_HEX :: u8 where "ETHO_PORT1_HARDWARE_HEX = 0x10"
definition ETHO_PORT2_HARDWARE_HEX :: u8 where "ETHO_PORT2_HARDWARE_HEX = 0x20"
definition ETHO_PORT3_HARDWARE_HEX :: u8 where "ETHO_PORT3_HARDWARE_HEX = 0x30"
definition ETHO_PORT4_HARDWARE_HEX :: u8 where "ETHO_PORT4_HARDWARE_HEX = 0x40"

text \<open>The logical ports are the physical ports in reverse order.\<close>

definition PORT1_OFFSET_HEX :: u8 where "PORT1_OFFSET_HEX = ETHO_PORT4_HARDWARE_HEX"
definition PORT2_OFFSET_HEX :: u8 where "PORT2_OFFSET_HEX = ETHO_PORT3_HARDWARE_HEX"
definition PORT3_OFFSET_HEX :: u8 where "PORT3_OFFSET_HEX = ETHO_PORT2_HARDWARE_HEX"
definition PORT4_OFFSET_HEX :: u8 where "PORT4_OFFSET_HEX = ETHO_PORT1_HARDWARE_HEX"

definition PORT_CONTROL1_OFFSET_HEX :: u8 where "PORT_CONTROL1_OFFSET_HEX = 0x1"
definition PORT_CONTROL2_OFFSET_HEX :: u8 where "PORT_CONTROL2_OFFSET_HEX = 0x2"
definition PORT_CONTROL3_OFFSET_HEX :: u8 where "PORT_CONTROL3_OFFSET_HEX = 0x3"
definition PORT_CONTROL4_OFFSET_HEX :: u8 where "PORT_CONTROL4_OFFSET_HEX = 0x4"
definition PORT_CONTROL5_OFFSET_HEX :: u8 where "PORT_CONTROL5_OFFSET_HEX = 0xC"
definition PORT_CONTROL6_OFFSET_HEX :: u8 where "PORT_CONTROL6_OFFSET_HEX = 0xD"
definition PORT_LINKMD0_OFFSET_HEX :: u8 where "PORT_LINKMD0_OFFSET_HEX = 0xA"
definition PORT_LINKMD1_OFFSET_HEX :: u8 where "PORT_LINKMD1_OFFSET_HEX = 0xB"

definition I2CBUFFERSIZE :: nat where "I2CBUFFERSIZE = 50"
definition I2C_QUEUE_SIZE :: nat where "I2C_QUEUE_SIZE = 5"

record I2C_Packet =
  I2CRXBuffer :: "u8 list"
  I2CRXIndex :: u8

text \<open>The functions an entry of the code table can point to.\<close>

datatype I2C_handler =
    I2C_WriteReadFromEthernetController
  | I2C_SaveSwitchConfiguration
  | I2C_DownloadSwitchConfiguration
  | I2C_ClearSwitchConfiguration
  | I2C_SetBitEthernetController
  | I2C_ClearBitEthernetController
  | I2C_SetSCEthernetController
  | I2CNotImplementedFunction

record I2C_Codes =
  command_code :: u8
  static_pcount :: u8
  custom_pcount :: u8
  return_pcount :: u8
  static_parameters :: "u8 list"
  func :: I2C_handler

definition I2C_entry :: "u8 \<Rightarrow> u8 \<Rightarrow> u8 \<Rightarrow> u8 \<Rightarrow> u8 list \<Rightarrow> I2C_handler \<Rightarrow> I2C_Codes" where
  "I2C_entry c sp cp rp ps f =
     \<lparr>command_code = c, static_pcount = sp, custom_pcount = cp, return_pcount = rp,
      static_parameters = ps, func = f\<rparr>"

text \<open>\<^verbatim>\<open>I2C_Mappings[80]\<close>, row by row.\<close>

definition I2C_Mappings :: "I2C_Codes list" where
  "I2C_Mappings =
    [I2C_entry 0x00 0 3 1 [] I2C_WriteReadFromEthernetController,
     I2C_entry 0x01 0 0 1 [] I2C_SaveSwitchConfiguration,
     I2C_entry 0x02 0 0 0xFF [] I2C_DownloadSwitchConfiguration,
     I2C_entry 0x03 0 0 1 [] I2C_ClearSwitchConfiguration,
     I2C_entry 0x04 0 0 0 [] I2CNotImplementedFunction,
     I2C_entry 0x05 0 0 0 [] I2CNotImplementedFunction,
     I2C_entry 0x06 0 0 0 [] I2CNotImplementedFunction,
     I2C_entry 0x07 0 0 0 [] I2CNotImplementedFunction,
     I2C_entry 0x08 0 0 0 [] I2CNotImplementedFunction,
     I2C_entry 0x09 0 0 0 [] I2CNotImplementedFunction,
     I2C_entry 0x0A 0 0 0 [] I2CNotImplementedFunction,
     I2C_entry 0x0B 0 0 0 [] I2CNotImplementedFunction,
     I2C_entry 0x0C 0 0 0 [] I2CNotImplementedFunction,
     I2C_entry 0x0D 0 0 0 [] I2CNotImplementedFunction,
     I2C_entry 0x0E 0 0 0 [] I2CNotImplementedFunction,
     I2C_entry 0x0F 0 0 0 [] I2CNotImplementedFunction,
     I2C_entry 0x10 3 0 1 [PORT1_OFFSET_HEX, PORT_CONTROL6_OFFSET_HEX, 0x03] I2C_ClearBitEthernetController,
     I2C_entry 0x11 3 0 1 [PORT1_OFFSET_HEX, PORT_CONTROL6_OFFSET_HEX, 0x03] I2C_SetBitEthernetController,
     I2C_entry 0x12 3 0 1 [PORT1_OFFSET_HEX, PORT_CONTROL5_OFFSET_HEX, 0x05] I2C_SetBitEthernetController,
     I2C_entry 0x13 3 0 1 [PORT1_OFFSET_HEX, PORT_CONTROL5_OFFSET_HEX, 0x05] I2C_ClearBitEthernetController,
     I2C_entry 0x14 3 0 1 [PORT1_OFFSET_HEX, PORT_CONTROL5_OFFSET_HEX, 0x06] I2C_ClearBitEthernetController,
     I2C_entry 0x15 3 0 1 [PORT1_OFFSET_HEX, PORT_CONTROL5_OFFSET_HEX, 0x06] I2C_SetBitEthernetController,
     I2C_entry 0x16 3 0 1 [PORT1_OFFSET_HEX, PORT_CONTROL6_OFFSET_HEX, 0x02] I2C_ClearBitEthernetController,
     I2C_entry 0x17 3 0 1 [PORT1_OFFSET_HEX, PORT_CONTROL6_OFFSET_HEX, 0x02] I2C_SetBitEthernetController,
     I2C_entry 0x18 3 0 1 [PORT1_OFFSET_HEX, PORT_CONTROL6_OFFSET_HEX, 0x05] I2C_SetSCEthernetController,
     I2C_entry 0x19 3 0 1 [PORT1_OFFSET_HEX, PORT_CONTROL2_OFFSET_HEX, 0x02] I2C_SetBitEthernetController,
     I2C_entry 0x1A 3 0 1 [PORT1_OFFSET_HEX, PORT_CONTROL2_OFFSET_HEX, 0x02] I2C_ClearBitEthernetController,
     I2C_entry 0x1B 3 0 1 [PORT1_OFFSET_HEX, PORT_CONTROL2_OFFSET_HEX, 0x01] I2C_SetBitEthernetController,
     I2C_entry 0x1C 3 0 1 [PORT1_OFFSET_HEX, PORT_CONTROL2_OFFSET_HEX, 0x01] I2C_ClearBitEthernetController,
     I2C_entry 0x1D 0 0 2 [] I2CNotImplementedFunction,
     I2C_entry 0x1E 0 0 1 [] I2CNotImplementedFunction,
     I2C_entry 0x1F 0 0 1 [] I2CNotImplementedFunction,
     I2C_entry 0x20 3 0 1 [PORT2_OFFSET_HEX, PORT_CONTROL6_OFFSET_HEX, 0x03] I2C_ClearBitEthernetController,
     I2C_entry 0x21 3 0 1 [PORT2_OFFSET_HEX, PORT_CONTROL6_OFFSET_HEX, 0x03] I2C_SetBitEthernetController,
     I2C_entry 0x22 3 0 1 [PORT2_OFFSET_HEX, PORT_CONTROL5_OFFSET_HEX, 0x05] I2C_SetBitEthernetController,
     I2C_entry 0x23 3 0 1 [PORT2_OFFSET_HEX, PORT_CONTROL5_OFFSET_HEX, 0x05] I2C_ClearBitEthernetController,
     I2C_entry 0x24 3 0 1 [PORT2_OFFSET_HEX, PORT_CONTROL5_OFFSET_HEX, 0x06] I2C_ClearBitEthernetController,
     I2C_entry 0x25 3 0 1 [PORT2_OFFSET_HEX, PORT_CONTROL5_OFFSET_HEX, 0x06] I2C_SetBitEthernetController,
     I2C_entry 0x26 3 0 1 [PORT2_OFFSET_HEX, PORT_CONTROL6_OFFSET_HEX, 0x02] I2C_ClearBitEthernetController,
     I2C_entry 0x27 3 0 1 [PORT2_OFFSET_HEX, PORT_CONTROL6_OFFSET_HEX, 0x02] I2C_SetBitEthernetController,
     I2C_entry 0x28 3 0 1 [PORT2_OFFSET_HEX, PORT_CONTROL6_OFFSET_HEX, 0x05] I2C_SetSCEthernetController,
     I2C_entry 0x29 3 0 1 [PORT2_OFFSET_HEX, PORT_CONTROL2_OFFSET_HEX, 0x02] I2C_SetBitEthernetController,
     I2C_entry 0x2A 3 0 1 [PORT2_OFFSET_HEX, PORT_CONTROL2_OFFSET_HEX, 0x02] I2C_ClearBitEthernetController,
     I2C_entry 0x2B 3 0 1 [PORT2_OFFSET_HEX, PORT_CONTROL2_OFFSET_HEX, 0x01] I2C_SetBitEthernetController,
     I2C_entry 0x2C 3 0 1 [PORT2_OFFSET_HEX, PORT_CONTROL2_OFFSET_HEX, 0x01] I2C_ClearBitEthernetController,
     I2C_entry 0x2D 0 0 2 [] I2CNotImplementedFunction,
     I2C_entry 0x2E 0 0 1 [] I2CNotImplementedFunction,
     I2C_entry 0x2F 0 0 1 [] I2CNotImplementedFunction,
     I2C_entry 0x30 3 0 1 [PORT3_OFFSET_HEX, PORT_CONTROL6_OFFSET_HEX, 0x03] I2C_ClearBitEthernetController,
     I2C_entry 0x31 3 0 1 [PORT3_OFFSET_HEX, PORT_CONTROL6_OFFSET_HEX, 0x03] I2C_SetBitEthernetController,
     I2C_entry 0x32 3 0 1 [PORT3_OFFSET_HEX, PORT_CONTROL5_OFFSET_HEX, 0x05] I2C_SetBitEthernetController,
     I2C_entry 0x33 3 0 1 [PORT3_OFFSET_HEX, PORT_CONTROL5_OFFSET_HEX, 0x05] I2C_ClearBitEthernetController,
     I2C_entry 0x34 3 0 1 [PORT3_OFFSET_HEX, PORT_CONTROL5_OFFSET_HEX, 0x06] I2C_ClearBitEthernetController,
     I2C_entry 0x35 3 0 1 [PORT3_OFFSET_HEX, PORT_CONTROL5_OFFSET_HEX, 0x06] I2C_SetBitEthernetController,
     I2C_entry 0x36 3 0 1 [PORT3_OFFSET_HEX, PORT_CONTROL6_OFFSET_HEX, 0x02] I2C_ClearBitEthernetController,
     I2C_entry 0x37 3 0 1 [PORT3_OFFSET_HEX, PORT_CONTROL6_OFFSET_HEX, 0x02] I2C_SetBitEthernetController,
     I2C_entry 0x38 3 0 1 [PORT3_OFFSET_HEX, PORT_CONTROL6_OFFSET_HEX, 0x05] I2C_SetSCEthernetController,
     I2C_entry 0x39 3 0 1 [PORT3_OFFSET_HEX, PORT_CONTROL2_OFFSET_HEX, 0x02] I2C_SetBitEthernetController,
     I2C_entry 0x3A 3 0 1 [PORT3_OFFSET_HEX, PORT_CONTROL2_OFFSET_HEX, 0x02] I2C_ClearBitEthernetController,
     I2C_entry 0x3B 3 0 1 [PORT3_OFFSET_HEX, PORT_CONTROL2_OFFSET_HEX, 0x01] I2C_SetBitEthernetController,
     I2C_entry 0x3C 3 0 1 [PORT3_OFFSET_HEX, PORT_CONTROL2_OFFSET_HEX, 0x01] I2C_ClearBitEthernetController,
     I2C_entry 0x3D 0 0 2 [] I2CNotImplementedFunction,
     I2C_entry 0x3E 0 0 1 [] I2CNotImplementedFunction,
     I2C_entry 0x3F 0 0 1 [] I2CNotImplementedFunction,
     I2C_entry 0x40 3 0 1 [PORT4_OFFSET_HEX, PORT_CONTROL6_OFFSET_HEX, 0x03] I2C_ClearBitEthernetController,
     I2C_entry 0x41 3 0 1 [PORT4_OFFSET_HEX, PORT_CONTROL6_OFFSET_HEX, 0x03] I2C_SetBitEthernetController,
     I2C_entry 0x42 3 0 1 [PORT4_OFFSET_HEX, PORT_CONTROL5_OFFSET_HEX, 0x05] I2C_SetBitEthernetController,
     I2C_entry 0x43 3 0 1 [PORT4_OFFSET_HEX, PORT_CONTROL5_OFFSET_HEX, 0x05] I2C_ClearBitEthernetController,
     I2C_entry 0x44 3 0 1 [PORT4_OFFSET_HEX, PORT_CONTROL5_OFFSET_HEX, 0x06] I2C_ClearBitEthernetController,
     I2C_entry 0x45 3 0 1 [PORT4_OFFSET_HEX, PORT_CONTROL5_OFFSET_HEX, 0x06] I2C_SetBitEthernetController,
     I2C_entry 0x46 3 0 1 [PORT4_OFFSET_HEX, PORT_CONTROL6_OFFSET_HEX, 0x02] I2C_ClearBitEthernetController,
     I2C_entry 0x47 3 0 1 [PORT4_OFFSET_HEX, PORT_CONTROL6_OFFSET_HEX, 0x02] I2C_SetBitEthernetController,
     I2C_entry 0x48 3 0 1 [PORT4_OFFSET_HEX, PORT_CONTROL6_OFFSET_HEX, 0x05] I2C_SetSCEthernetController,
     I2C_entry 0x49 3 0 1 [PORT4_OFFSET_HEX, PORT_CONTROL2_OFFSET_HEX, 0x02] I2C_SetBitEthernetController,
     I2C_entry 0x4A 3 0 1 [PORT4_OFFSET_HEX, PORT_CONTROL2_OFFSET_HEX, 0x02] I2C_ClearBitEthernetController,
     I2C_entry 0x4B 3 0 1 [PORT4_OFFSET_HEX, PORT_CONTROL2_OFFSET_HEX, 0x01] I2C_SetBitEthernetController,
     I2C_entry 0x4C 3 0 1 [PORT4_OFFSET_HEX, PORT_CONTROL2_OFFSET_HEX, 0x01] I2C_ClearBitEthernetController,
     I2C_entry 0x4D 0 0 2 [] I2CNotImplementedFunction,
     I2C_entry 0x4E 0 0 1 [] I2CNotImplementedFunction,
     I2C_entry 0x4F 0 0 1 [] I2CNotImplementedFunction]"

text \<open>
  \<^verbatim>\<open>I2C_Mappings[code]\<close>.  The handler indexes the table with the received byte
  without a bound: a byte of 80 or more reads outside the table.
\<close>

definition I2C_Mappings_at :: "u8 \<Rightarrow> I2C_Codes option" where
  "I2C_Mappings_at code =
     (if unat code < length I2C_Mappings then Some (I2C_Mappings ! unat code) else None)"

section \<open>I2C slave interrupt handler (freertos_init.c)\<close>

text \<open>
  What the handler reads from the peripheral on one interrupt: the tested bits of the
  interrupt status and of the slave status, and the byte in the data register.
\<close>

record i2c_irq =
  int_START :: bool
  int_DATA :: bool
  int_STOP :: bool
  act_RREQ :: bool
  rx_byte :: u8

text \<open>
  The handler's static packet \<^verbatim>\<open>data\<close> (here \<open>isr_data\<close>), the queue \<^verbatim>\<open>g_pI2CQueue\<close> and the command
  codes printed on the UART.
\<close>

record i2c_state =
  isr_data :: I2C_Packet
  I2CQueue :: "I2C_Packet list"
  detected :: "u8 list"

datatype isr_result =
    Returns i2c_state
  | QueueFullHang
  | OutsideBuffer
  | OutsideMappings

definition memset_packet :: I2C_Packet where
  "memset_packet = \<lparr>I2CRXBuffer = replicate I2CBUFFERSIZE 0, I2CRXIndex = 0\<rparr>"

text \<open>
  The handler after its \<^verbatim>\<open>memset\<close>.  On a data interrupt the byte is stored at the
  index, an index above the buffer size wraps to zero, the packet is queued when the index
  has reached the \<^verbatim>\<open>custom_pcount\<close> of the code in \<^verbatim>\<open>I2CRXBuffer[0]\<close>, and the index
  is incremented.  A full queue ends in \<^verbatim>\<open>while (1)\<close>.
\<close>

definition I2C0SlaveIntHandler_body :: "i2c_irq \<Rightarrow> i2c_state \<Rightarrow> isr_result" where
  "I2C0SlaveIntHandler_body irq st =
     (if act_RREQ irq then
        if int_START irq then
          Returns (st\<lparr>isr_data := (isr_data st)\<lparr>I2CRXIndex := 0\<rparr>\<rparr>)
        else if int_DATA irq then
          (if unat (I2CRXIndex (isr_data st)) < I2CBUFFERSIZE then
             (let d1 = (isr_data st)\<lparr>I2CRXBuffer :=
                         (I2CRXBuffer (isr_data st))[unat (I2CRXIndex (isr_data st)) := rx_byte irq]\<rparr>;
                  d2 = (if unat (I2CRXIndex d1) > I2CBUFFERSIZE
                        then d1\<lparr>I2CRXIndex := 0\<rparr> else d1)
              in case I2C_Mappings_at (I2CRXBuffer d2 ! 0) of
                   None \<Rightarrow> OutsideMappings
                 | Some m \<Rightarrow>
                     if I2CRXIndex d2 \<ge> custom_pcount m then
                       (if length (I2CQueue st) < I2C_QUEUE_SIZE then
                          Returns (st\<lparr>isr_data := d2\<lparr>I2CRXIndex := I2CRXIndex d2 + 1\<rparr>,
                                      I2CQueue := I2CQueue st @ [d2],
                                      detected := detected st @ [command_code m]\<rparr>)
                        else QueueFullHang)
                     else Returns (st\<lparr>isr_data := d2\<lparr>I2CRXIndex := I2CRXIndex d2 + 1\<rparr>\<rparr>))
           else OutsideBuffer)
        else Returns st
      else Returns st)"

text \<open>
  \<^verbatim>\<open>I2C0SlaveIntHandler\<close>: the static packet is cleared by \<^verbatim>\<open>memset\<close> on entry, on
  every interrupt.
\<close>

definition I2C0SlaveIntHandler :: "i2c_irq \<Rightarrow> i2c_state \<Rightarrow> isr_result" where
  "I2C0SlaveIntHandler irq st = I2C0SlaveIntHandler_body irq (st\<lparr>isr_data := memset_packet\<rparr>)"

text \<open>The interrupts of a transaction, one after the other.\<close>

fun I2C_interrupts :: "(i2c_irq \<Rightarrow> i2c_state \<Rightarrow> isr_result) \<Rightarrow> i2c_irq list \<Rightarrow> i2c_state \<Rightarrow> isr_result" where
  "I2C_interrupts handler [] st = Returns st"
| "I2C_interrupts handler (irq # irqs) st =
     (case handler irq st of
        Returns st' \<Rightarrow> I2C_interrupts handler irqs st'
      | r \<Rightarrow> r)"

definition irq_start :: i2c_irq where
  "irq_start = \<lparr>int_START = True, int_DATA = False, int_STOP = False, act_RREQ = True, rx_byte = 0\<rparr>"

definition irq_data :: "u8 \<Rightarrow> i2c_irq" where
  "irq_data b = \<lparr>int_START = False, int_DATA = True, int_STOP = False, act_RREQ = True, rx_byte = b\<rparr>"

definition i2c_idle :: i2c_state where
  "i2c_idle = \<lparr>isr_data = memset_packet, I2CQueue = [], detected = []\<rparr>"

section \<open>Port monitor (port_monitor_task.c)\<close>

definition INTERRUPT_STATUS_REGISTER :: u8 where "INTERRUPT_STATUS_REGISTER = 0x7C"
definition GLOBAL_CONTROL_0_HEX :: u8 where "GLOBAL_CONTROL_0_HEX = 0x02"
definition GLOBAL_CONTROL_3_HEX :: u8 where "GLOBAL_CONTROL_3_HEX = 0x05"

definition UART :: "string \<Rightarrow> sys \<Rightarrow> sys" where
  "UART msg s = s\<lparr>bus := bus s @ [UARTprintf msg]\<rparr>"

text \<open>
  The poll of the dynamic-MAC flush bit: the loop reads global control 0 until bit 5 is
  clear, with no bound on the number of reads.  A controller that never clears the bit
  keeps the task in the loop: the result is \<open>None\<close>.
\<close>

partial_function (option) PortMonitorTask_flush_wait :: "sys \<Rightarrow> sys option" where
  "PortMonitorTask_flush_wait s =
     (case EthoControllerSingleRead GLOBAL_CONTROL_0_HEX s of
        (v, s') \<Rightarrow>
          if drop_bit 5 v AND 1 \<noteq> 0 then PortMonitorTask_flush_wait s' else Some s')"

text \<open>
  One of the five \<^verbatim>\<open>if (flags & bit)\<close> blocks of \<^verbatim>\<open>PortMonitorTask\<close>.  The blocks
  differ in the bit tested, the status-1 register, the control-2 register and the port
  named in the message.  \<^verbatim>\<open>eth0_reg_settings\<close> is a \<^verbatim>\<open>uint8_t\<close>.

  Before the poll: the bit is written back to the interrupt status register, the link
  state is read and reported, learning is disabled on the port, and the flush bit is set.
\<close>

definition PortMonitorTask_block_begin :: "u32 \<Rightarrow> u8 \<Rightarrow> u8 \<Rightarrow> string \<Rightarrow> sys \<Rightarrow> sys" where
  "PortMonitorTask_block_begin flags status_reg learn_reg port_name s0 =
     (let s1 = snd (EthoControllerSingleWrite INTERRUPT_STATUS_REGISTER flags s0);
          (r2, s2) = EthoControllerSingleRead status_reg s1;
          eth0_reg_settings = (ucast r2 :: u8);
          s3 = (if drop_bit 5 eth0_reg_settings AND 1 \<noteq> 0
                then UART (''[SYSTEM]: '' @ port_name @ '' connected!'') s2
                else UART (''[SYSTEM]: '' @ port_name @ '' disconnected!'') s2);
          (r4, s4) = EthoControllerSingleRead learn_reg s3;
          eth0_reg_settings = (ucast r4 :: u8) OR 1;
          s5 = snd (EthoControllerSingleWrite learn_reg (ucast eth0_reg_settings) s4);
          (r6, s6) = EthoControllerSingleRead GLOBAL_CONTROL_0_HEX s5;
          eth0_reg_settings = (ucast r6 :: u8) OR 0x20
      in snd (EthoControllerSingleWrite GLOBAL_CONTROL_0_HEX (ucast eth0_reg_settings) s6))"

text \<open>After the poll: learning is enabled again on the port.\<close>

definition PortMonitorTask_block_end :: "u8 \<Rightarrow> sys \<Rightarrow> sys" where
  "PortMonitorTask_block_end learn_reg s8 =
     (let (r9, s9) = EthoControllerSingleRead learn_reg s8;
          eth0_reg_settings = (ucast r9 :: u8) AND NOT 1
      in snd (EthoControllerSingleWrite learn_reg (ucast eth0_reg_settings) s9))"

text \<open>
  The whole block.  A block that runs assigns its bit to \<^verbatim>\<open>flags\<close>, the variable
  that the following blocks test.
\<close>

definition PortMonitorTask_block ::
  "u32 \<Rightarrow> u8 \<Rightarrow> u8 \<Rightarrow> string \<Rightarrow> u32 \<times> sys \<Rightarrow> (u32 \<times> sys) option" where
  "PortMonitorTask_block port_bit status_reg learn_reg port_name fs =
     (case fs of (flags0, s0) \<Rightarrow>
        if flags0 AND port_bit \<noteq> 0 then
          (let flags = port_bit
           in case PortMonitorTask_flush_wait
                     (PortMonitorTask_block_begin flags status_reg learn_reg port_name s0) of
                None \<Rightarrow> None
              | Some s8 \<Rightarrow> Some (flags, PortMonitorTask_block_end learn_reg s8))
        else Some (flags0, s0))"

text \<open>
  One iteration of the task loop: nothing while no user is authenticated; otherwise the
  interrupt status is read once and the five blocks follow in the order of the source.
\<close>

definition PortMonitorTask_pass :: "bool \<Rightarrow> sys \<Rightarrow> sys option" where
  "PortMonitorTask_pass Authenticated s =
     (if Authenticated then
        (case EthoControllerSingleRead INTERRUPT_STATUS_REGISTER s of
           (flags, s1) \<Rightarrow>
             (case PortMonitorTask_block 0x10 0x5E 0x52 ''Expansion port'' (flags, s1) of
                None \<Rightarrow> None
              | Some fs1 \<Rightarrow>
             (case PortMonitorTask_block 0x08 0x4E 0x42 ''Port 0'' fs1 of
                None \<Rightarrow> None
              | Some fs2 \<Rightarrow>
             (case PortMonitorTask_block 0x04 0x3E 0x32 ''Port 1'' fs2 of
                None \<Rightarrow> None
              | Some fs3 \<Rightarrow>
             (case PortMonitorTask_block 0x02 0x2E 0x22 ''Port 2'' fs3 of
                None \<Rightarrow> None
              | Some fs4 \<Rightarrow>
             (case PortMonitorTask_block 0x01 0x1E 0x12 ''Port 3'' fs4 of
                None \<Rightarrow> None
              | Some fs5 \<Rightarrow> Some (snd fs5)))))))
      else Some s)"

text \<open>Replies of the controller given as a list; zero after the end of the list.\<close>

definition replies :: "u8 list \<Rightarrow> nat \<Rightarrow> u8" where
  "replies bs n = (if n < length bs then bs ! n else 0)"

text \<open>The values written to the interrupt status register in a trace, in order.\<close>

fun interrupts_cleared :: "bus_op list \<Rightarrow> u32 list" where
  "interrupts_cleared [] = []"
| "interrupts_cleared (EthoWrite a v # ops) =
     (if a = INTERRUPT_STATUS_REGISTER then v # interrupts_cleared ops else interrupts_cleared ops)"
| "interrupts_cleared (_ # ops) = interrupts_cleared ops"

section \<open>Cable diagnostics (command_functions.c)\<close>

text \<open>
  \<^verbatim>\<open>fault_distance = (0.4 * (reg_data - 26))\<close>: the subtraction is done in \<^verbatim>\<open>uint32_t\<close>,
  the difference is converted to \<^verbatim>\<open>double\<close> (exactly), multiplied by the \<^verbatim>\<open>double\<close>
  constant nearest to 0.4 with the product rounded to the nearest \<^verbatim>\<open>double\<close>, and the
  conversion back to \<^verbatim>\<open>uint32_t\<close> discards the fraction.

  Doubles are the rationals \<open>m * 2 ^ e\<close> with \<open>m\<close> of at most 53 bits;
  \<open>double_round\<close> is round-to-nearest, ties to even, for the non-negative values below
  the overflow threshold and above the subnormal range, which is where the products
  of this function lie.
\<close>

definition pow2 :: "int \<Rightarrow> rat" where
  "pow2 e = (if e \<ge> 0 then 2 ^ nat e else 1 / 2 ^ nat (- e))"

text \<open>The exponent \<open>e\<close> with \<open>2 ^ e \<le> x < 2 ^ (e + 1)\<close>, for positive \<open>x\<close>.\<close>

definition ilog2 :: "rat \<Rightarrow> int" where
  "ilog2 x = (if x \<ge> 1 then bitlen \<lfloor>x\<rfloor> - 1 else - bitlen (\<lceil>1 / x\<rceil> - 1))"

definition round_half_even :: "rat \<Rightarrow> int" where
  "round_half_even q =
     (let f = \<lfloor>q\<rfloor>; r = q - of_int f
      in if r < 1 / 2 then f
         else if r > 1 / 2 then f + 1
         else if even f then f else f + 1)"

definition double_round :: "rat \<Rightarrow> rat" where
  "double_round x =
     (if x = 0 then 0
      else (let ulp = pow2 (ilog2 x - 52)
            in of_int (round_half_even (x / ulp)) * ulp))"

text \<open>The \<^verbatim>\<open>double\<close> literal \<^verbatim>\<open>0.4\<close>: \<open>0x3FD999999999999A\<close>.\<close>

definition double_0_4 :: rat where
  "double_0_4 = 3602879701896397 / 2 ^ 53"

definition LinkMD_fault_distance :: "u32 \<Rightarrow> u32" where
  "LinkMD_fault_distance reg_data =
     word_of_int \<lfloor>double_round (double_0_4 * of_nat (unat (reg_data - 26)))\<rfloor>"

text \<open>
  The poll for the end of the LinkMD run: at most eleven reads of the LinkMD register,
  until it reads as the value written with the start bit cleared.
\<close>

function COM_RunCableDiagnostics_poll :: "u8 \<Rightarrow> u32 \<Rightarrow> nat \<Rightarrow> sys \<Rightarrow> bool \<times> sys" where
  "COM_RunCableDiagnostics_poll linkmd0 reg_data retry_attempts s =
     (case EthoControllerSingleRead linkmd0 s of
        (v, s') \<Rightarrow>
          if v \<noteq> reg_data then
            (if retry_attempts + 1 > 10 then (False, s')
             else COM_RunCableDiagnostics_poll linkmd0 reg_data (retry_attempts + 1) s')
          else (True, s'))"
  by pat_completeness auto
termination
  by (relation "measure (\<lambda>(linkmd0, reg_data, retry_attempts, s). 11 - retry_attempts)") auto

text \<open>
  \<^verbatim>\<open>COM_RunCableDiagnostics\<close>.  \<open>reg_addr\<close> is \<^verbatim>\<open>strtol(params[0], NULL, 0)\<close>; register
  addresses are passed to the HAL as \<^verbatim>\<open>uint8_t\<close>.
\<close>

definition COM_RunCableDiagnostics :: "u32 \<Rightarrow> sys \<Rightarrow> bool \<times> sys" where
  "COM_RunCableDiagnostics reg_addr s0 =
     (let control5 = (ucast (reg_addr + ucast PORT_CONTROL5_OFFSET_HEX) :: u8);
          control6 = (ucast (reg_addr + ucast PORT_CONTROL6_OFFSET_HEX) :: u8);
          linkmd0 = (ucast (reg_addr + ucast PORT_LINKMD0_OFFSET_HEX) :: u8);
          linkmd1 = (ucast (reg_addr + ucast PORT_LINKMD1_OFFSET_HEX) :: u8);
          s1 = UART ''[RUNNING TASK]: Running Link MD for selected port, please wait... '' s0;
          (reg_data, s2) = EthoControllerSingleRead control5 s1;
          reg_data = reg_data OR 0x80;
          s3 = snd (EthoControllerSingleWrite control5 reg_data s2);
          (reg_data, s4) = EthoControllerSingleRead control6 s3;
          reg_data = reg_data OR 0x04;
          s5 = snd (EthoControllerSingleWrite control6 reg_data s4);
          (reg_data, s6) = EthoControllerSingleRead linkmd0 s5;
          reg_data = reg_data OR 0x10;
          s7 = snd (EthoControllerSingleWrite linkmd0 reg_data s6);
          reg_data = reg_data AND NOT 0x10;
          (finished, s8) = COM_RunCableDiagnostics_poll linkmd0 reg_data 0 s7
      in if \<not> finished then (False, s8)
         else
          (let (cable_state, s9) = EthoControllerSingleRead linkmd0 s8;
               cable_state = cable_state AND 0x60;
               (reg_data, s10) = EthoControllerSingleRead linkmd0 s9;
               reg_data = reg_data AND 0x01;
               (r11, s11) = EthoControllerSingleRead linkmd1 s10;
               reg_data = reg_data + r11;
               fault_distance = LinkMD_fault_distance reg_data;
               (reg_data, s12) = EthoControllerSingleRead control5 s11;
               reg_data = reg_data AND NOT 0x80;
               s13 = snd (EthoControllerSingleWrite control5 reg_data s12);
               (reg_data, s14) = EthoControllerSingleRead control6 s13;
               reg_data = reg_data AND NOT 0x04;
               s15 = snd (EthoControllerSingleWrite control6 reg_data s14)
           in if cable_state = 0x00 then (True, UART ''LINK CABLE: Normal'' s15)
              else
               (let s16 =
                      (if cable_state = 0x20
                         then UART ''LINK CABLE: Open Detected In Cable'' s15
                       else if cable_state = 0x40
                         then UART ''LINK CABLE: Short Detected In Cable'' s15
                       else if cable_state = 0x60
                         then UART ''LINK CABLE: Cable Diagnostics Failed'' s15
                       else UART ''LINK CABLE: An unknown error occurred while testing'' s15)
                in (True, s16\<lparr>bus := bus s16 @
                      [UARTprintf_d ''DISTANCE TO FAULT: %d'' fault_distance]\<rparr>))))"


chapter \<open>Properties\<close>

section \<open>EEPROM round trip\<close>

lemma eeprom_LogItemEEPROM [simp]: "eeprom (LogItemEEPROM c s) = eeprom s"
  by (simp add: LogItemEEPROM_def)

lemma EEPROMSingleWrite_ok: "fst (EEPROMSingleWrite a b s) = True"
  by (simp add: EEPROMSingleWrite_def Let_def eeprom_write_cmd_def eeprom_read_cmd_def
      xSemaphoreTake_SPI0_def)

lemma EEPROMSingleWrite_eeprom:
  "eeprom (snd (EEPROMSingleWrite a b s)) = (eeprom s)(eeprom_cell a := NOT b)"
  by (simp add: EEPROMSingleWrite_def Let_def eeprom_write_cmd_def eeprom_read_cmd_def
      xSemaphoreTake_SPI0_def xSemaphoreGive_SPI0_def)

lemma ucast_not_ucast_u8: "(ucast (NOT (ucast (w :: u8) :: u32)) :: u8) = NOT w"
  by (rule bit_word_eqI) (auto simp add: bit_simps)

lemma EEPROMSingleRead_value:
  "fst (EEPROMSingleRead a s) = NOT (eeprom s (eeprom_cell a))"
  by (simp add: EEPROMSingleRead_def Let_def eeprom_read_cmd_def xSemaphoreTake_SPI0_def
      ucast_not_ucast_u8)

lemma EEPROMSingleRead_eeprom [simp]: "eeprom (snd (EEPROMSingleRead a s)) = eeprom s"
  by (simp add: EEPROMSingleRead_def Let_def xSemaphoreTake_SPI0_def xSemaphoreGive_SPI0_def)

lemma eeprom_cell_valid: "address < 131072 \<Longrightarrow> eeprom_cell address = unat address"
proof -
  assume a: "address < 131072"
  have "address AND mask 17 = address"
    using less_mask_eq[of address 17] a by simp
  moreover have "(mask 17 :: u32) = 0x1FFFF"
    by (simp add: mask_eq_exp_minus_1)
  ultimately show ?thesis by (simp add: eeprom_cell_def)
qed

lemma word_succ_lt: "(a::u32) < 131072 \<Longrightarrow> unat (a + 1) = Suc (unat a)"
  by (simp add: unat_word_ariths word_less_nat_alt)

lemma EEPROMBulkWrite_loop_eeprom:
  "unat start + length data \<le> 131072 \<Longrightarrow>
   \<exists>s'. EEPROMBulkWrite_loop start data s = Some (True, s') \<and>
        (\<forall>k. eeprom s' k =
           (if unat start \<le> k \<and> k < unat start + length data
            then NOT (data ! (k - unat start)) else eeprom s k))"
proof (induction data arbitrary: start s)
  case Nil
  then show ?case by (auto simp add: xSemaphoreGive_SPI0_def)
next
  case (Cons d data)
  from Cons.prems have lt: "start < 131072"
    by (simp add: word_less_nat_alt)
  then have nle: "\<not> 131072 \<le> start" by simp
  from lt have suc: "unat (start + 1) = Suc (unat start)" by (rule word_succ_lt)
  obtain s1 where w: "EEPROMSingleWrite start d s = (True, s1)"
    using EEPROMSingleWrite_ok[of start d s] by (cases "EEPROMSingleWrite start d s") simp
  then have e1: "eeprom s1 = (eeprom s)(unat start := NOT d)"
    using EEPROMSingleWrite_eeprom[of start d s] eeprom_cell_valid[OF lt] by simp
  from Cons.prems suc have "unat (start + 1) + length data \<le> 131072" by simp
  from Cons.IH[OF this, of s1] obtain s' where
    l: "EEPROMBulkWrite_loop (start + 1) data s1 = Some (True, s')" and
    c: "\<And>k. eeprom s' k =
           (if unat (start + 1) \<le> k \<and> k < unat (start + 1) + length data
            then NOT (data ! (k - unat (start + 1))) else eeprom s1 k)"
    by blast
  have "EEPROMBulkWrite_loop start (d # data) s = Some (True, s')"
    using nle w l by simp
  moreover have "eeprom s' k =
           (if unat start \<le> k \<and> k < unat start + length (d # data)
            then NOT ((d # data) ! (k - unat start)) else eeprom s k)" for k
    using c[of k] suc e1 by (auto simp add: nth_Cons' )
  ultimately show ?case by blast
qed

lemma EEPROMBulkRead_loop_value:
  "unat start + n \<le> 131072 \<Longrightarrow>
   fst (EEPROMBulkRead_loop start n s) = True \<and>
   fst (snd (EEPROMBulkRead_loop start n s)) = map (\<lambda>k. NOT (eeprom s (unat start + k))) [0..<n] \<and>
   eeprom (snd (snd (EEPROMBulkRead_loop start n s))) = eeprom s"
proof (induction n arbitrary: start s)
  case 0
  then show ?case by (simp add: xSemaphoreGive_SPI0_def)
next
  case (Suc n)
  from Suc.prems have lt: "start < 131072"
    by (simp add: word_less_nat_alt)
  then have suc: "unat (start + 1) = Suc (unat start)" by (rule word_succ_lt)
  from lt have nle: "\<not> 131072 \<le> start" by simp
  obtain v s1 where r: "EEPROMSingleRead start s = (v, s1)" by (cases "EEPROMSingleRead start s")
  then have v: "v = NOT (eeprom s (unat start))" and e1: "eeprom s1 = eeprom s"
    using EEPROMSingleRead_value[of start s] EEPROMSingleRead_eeprom[of start s] eeprom_cell_valid[OF lt]
    by simp_all
  from Suc.prems suc have "unat (start + 1) + n \<le> 131072" by simp
  note ih = Suc.IH[OF this, of s1]
  obtain ok out s2 where l: "EEPROMBulkRead_loop (start + 1) n s1 = (ok, out, s2)"
    by (cases "EEPROMBulkRead_loop (start + 1) n s1")
  have m: "map (\<lambda>k. NOT (eeprom s (unat start + k))) [0..<Suc n] =
        NOT (eeprom s (unat start)) # map (\<lambda>k. NOT (eeprom s (Suc (unat start) + k))) [0..<n]"
    by (simp add: upt_conv_Cons map_Suc_upt[symmetric] del: upt_Suc)
  show ?case using nle r l ih v e1 suc
    by (simp add: m del: upt_Suc)
qed
text \<open>
  Claim C1 (EEPROM inversion round trip).  For a valid address, \<^verbatim>\<open>EEPROMSingleWrite\<close>
  succeeds, the cell holds the complement of the byte, and \<^verbatim>\<open>EEPROMSingleRead\<close> of the
  same address returns the byte.  For a range inside the device, \<^verbatim>\<open>EEPROMBulkWrite\<close>
  returns true and \<^verbatim>\<open>EEPROMBulkRead\<close> of the same range returns true with the
  original buffer.
\<close>

theorem eeprom_inversion_roundtrip:
  assumes valid: "address < 131072"
    and start: "start_address < 131072"
    and range: "unat start_address + length data \<le> 131072"
  shows "fst (EEPROMSingleWrite address b s) \<and>
         eeprom (snd (EEPROMSingleWrite address b s)) (unat address) = NOT b \<and>
         fst (EEPROMSingleRead address (snd (EEPROMSingleWrite address b s))) = b \<and>
         (\<exists>s1 s2. EEPROMBulkWrite start_address data s = Some (True, s1) \<and>
                  EEPROMBulkRead start_address (length data) s1 = (True, data, s2))"
proof -
  have single: "fst (EEPROMSingleWrite address b s) \<and>
         eeprom (snd (EEPROMSingleWrite address b s)) (unat address) = NOT b \<and>
         fst (EEPROMSingleRead address (snd (EEPROMSingleWrite address b s))) = b"
    by (simp add: EEPROMSingleWrite_ok EEPROMSingleWrite_eeprom EEPROMSingleRead_value
        eeprom_cell_valid[OF valid])
  from start have nle: "\<not> 131072 \<le> start_address" by simp
  define s0 where "s0 = xSemaphoreTake_SPI0 (LogItemEEPROM EEPROMWriteOP s)"
  from EEPROMBulkWrite_loop_eeprom[OF range, of s0] obtain s1 where
    w: "EEPROMBulkWrite_loop start_address data s0 = Some (True, s1)" and
    c: "\<And>k. eeprom s1 k =
           (if unat start_address \<le> k \<and> k < unat start_address + length data
            then NOT (data ! (k - unat start_address)) else eeprom s0 k)"
    by blast
  have bw: "EEPROMBulkWrite start_address data s = Some (True, s1)"
    using w nle by (simp add: EEPROMBulkWrite_def Let_def s0_def)
  define r0 where "r0 = xSemaphoreTake_SPI0 (LogItemEEPROM EEPROMReadOP s1)"
  have er0: "eeprom r0 = eeprom s1"
    by (simp add: r0_def xSemaphoreTake_SPI0_def)
  note rl = EEPROMBulkRead_loop_value[OF range, of r0]
  have "map (\<lambda>k. NOT (eeprom r0 (unat start_address + k))) [0..<length data] = data"
    by (rule nth_equalityI) (simp_all add: er0 c)
  with rl have "EEPROMBulkRead_loop start_address (length data) r0 =
      (True, data, snd (snd (EEPROMBulkRead_loop start_address (length data) r0)))"
    by (cases "EEPROMBulkRead_loop start_address (length data) r0") simp
  then have "EEPROMBulkRead start_address (length data) s1 =
      (True, data, snd (snd (EEPROMBulkRead_loop start_address (length data) r0)))"
    using nle by (simp add: EEPROMBulkRead_def Let_def r0_def)
  with bw single show ?thesis by blast
qed

text \<open>
  Claim C1 at concrete inputs: byte \<open>0x5A\<close> at address \<open>0x300\<close>, and three bytes at
  the base of the user table.
\<close>

theorem eeprom_inversion_roundtrip_witness:
  "fst (EEPROMSingleWrite 0x300 0x5A idle_sys) \<and>
   eeprom (snd (EEPROMSingleWrite 0x300 0x5A idle_sys)) (unat (0x300 :: u32)) = NOT 0x5A \<and>
   fst (EEPROMSingleRead 0x300 (snd (EEPROMSingleWrite 0x300 0x5A idle_sys))) = 0x5A \<and>
   (\<exists>s1 s2. EEPROMBulkWrite 0x1200 [0x61, 0x64, 0x6D] idle_sys = Some (True, s1) \<and>
            EEPROMBulkRead 0x1200 (length [0x61, 0x64, 0x6D :: u8]) s1
              = (True, [0x61, 0x64, 0x6D], s2))"
  by (rule eeprom_inversion_roundtrip) simp_all

section \<open>Mutex discipline of the bulk operations\<close>

text \<open>
  Claim C5 (release on every exit path).  The range-rejection returns of
  \<^verbatim>\<open>EEPROMBulkWrite\<close> (start address 131072) and of \<^verbatim>\<open>EthoControllerBulkRead\<close>
  (register \<open>0xFF\<close>, count 1) leave the mutex taken, while the same rejection in
  \<^verbatim>\<open>EEPROMBulkRead\<close> gives it back.
\<close>

theorem bulk_range_rejection_keeps_mutex:
  "(\<exists>s'. EEPROMBulkWrite 131072 [0x00] idle_sys = Some (False, s') \<and> SPI0_taken s') \<and>
   (\<exists>out s'. EthoControllerBulkRead 0xFF 1 idle_sys = (False, out, s') \<and> SPI1_taken s') \<and>
   (\<exists>out s'. EEPROMBulkRead 131072 1 idle_sys = (False, out, s') \<and> \<not> SPI0_taken s')"
  by (simp add: EEPROMBulkWrite_def EthoControllerBulkRead_def EEPROMBulkRead_def Let_def
      LogItemEEPROM_def xSemaphoreTake_SPI0_def xSemaphoreTake_SPI1_def xSemaphoreGive_SPI0_def
      idle_sys_def LOGGER_QUEUE_SIZE_def)

section \<open>Event-log ring\<close>

lemma NextLogSlot_LogItemEEPROM [simp]: "NextLogSlot (LogItemEEPROM c s) = NextLogSlot s"
  by (simp add: LogItemEEPROM_def)

lemma NextLogSlot_EEPROMSingleWrite [simp]:
  "NextLogSlot (snd (EEPROMSingleWrite a b s)) = NextLogSlot s"
  by (simp add: EEPROMSingleWrite_def Let_def eeprom_write_cmd_def eeprom_read_cmd_def
      xSemaphoreTake_SPI0_def xSemaphoreGive_SPI0_def)

lemma NextLogSlot_log_entry:
  "NextLogSlot (LoggerTask_log_entry t c s) =
     (if NextLogSlot s + 5 > EEPROM_LOG_BASE + MAX_LOG_ENTRIES
      then EEPROM_LOG_BASE else NextLogSlot s + 5)"
proof -
  have "NextLogSlot (fold (\<lambda>i s. snd (EEPROMSingleWrite (NextLogSlot s + of_nat i) (g i) s)) xs s)
          = NextLogSlot s" for g :: "nat \<Rightarrow> u8" and xs s
    by (induction xs arbitrary: s) simp_all
  then show ?thesis
    by (simp add: LoggerTask_log_entry_def Let_def)
qed

lemma log_slot_step:
  assumes "k \<le> 80"
  shows "(if (EEPROM_LOG_BASE + 5 * of_nat k) + 5 > EEPROM_LOG_BASE + MAX_LOG_ENTRIES
      then EEPROM_LOG_BASE else (EEPROM_LOG_BASE + 5 * of_nat k) + 5)
     = EEPROM_LOG_BASE + 5 * of_nat (Suc k mod 81)"
proof -
  have u: "unat (of_nat k :: u32) = k" using assms by (simp add: unat_of_nat)
  have a: "unat (EEPROM_LOG_BASE + 5 * of_nat k + 5) = 5637 + 5 * k"
    using assms u by (simp add: EEPROM_LOG_BASE_def unat_word_ariths)
  have b: "unat (EEPROM_LOG_BASE + MAX_LOG_ENTRIES) = 6032"
    by (simp add: EEPROM_LOG_BASE_def MAX_LOG_ENTRIES_def)
  show ?thesis
  proof (cases "k = 80")
    case True
    then show ?thesis using a b by (simp add: word_less_nat_alt)
  next
    case False
    with assms have "k < 80" by simp
    then have "Suc k mod 81 = Suc k" by simp
    moreover have "\<not> EEPROM_LOG_BASE + 5 * of_nat k + 5 > EEPROM_LOG_BASE + MAX_LOG_ENTRIES"
      using a b \<open>k < 80\<close> by (simp add: word_less_nat_alt)
    ultimately show ?thesis by (simp add: algebra_simps)
  qed
qed

lemma log_entries_slot:
  "k \<le> 80 \<Longrightarrow> NextLogSlot s = EEPROM_LOG_BASE + 5 * of_nat k \<Longrightarrow>
   NextLogSlot (LoggerTask_log_entries es s) = EEPROM_LOG_BASE + 5 * of_nat ((k + length es) mod 81)"
proof (induction es arbitrary: k s)
  case Nil
  then show ?case by simp
next
  case (Cons e es)
  obtain t c where e: "e = (t, c)" by (cases e)
  have k': "Suc k mod 81 \<le> 80" by simp
  have "NextLogSlot (LoggerTask_log_entry t c s) = EEPROM_LOG_BASE + 5 * of_nat (Suc k mod 81)"
    unfolding NextLogSlot_log_entry Cons.prems(2) by (rule log_slot_step[OF Cons.prems(1)])
  from Cons.IH[OF k' this] show ?case
    by (simp add: e mod_simps)
qed

lemma LoggerTask_iteration_logs:
  "LoggerQueue s = c # q \<Longrightarrow>
   drop_bit (LoggerCodes_value c) (LogStatusFlags s) AND 1 \<noteq> 0 \<Longrightarrow>
   LoggerCodes_value c \<noteq> prev \<Longrightarrow>
   LoggerTask_iteration t (prev, s) =
     (LoggerCodes_value c, LoggerTask_log_entry t c (s\<lparr>LoggerQueue := q\<rparr>))"
  by (simp add: LoggerTask_iteration_def)

text \<open>
  Claim C3 (event-log ring capacity).  The wrap test compares with
  \<^verbatim>\<open>EEPROM_LOG_BASE + MAX_LOG_ENTRIES\<close>, that is 400 bytes and not 400 records: starting
  at the base, after \<open>n\<close> written records the next slot is record \<open>n mod 81\<close>.  The
  slot wraps on the 81st write, and only 81 record slots are ever used.
\<close>

theorem logger_ring_wraps_after_81_records:
  "NextLogSlot s = EEPROM_LOG_BASE \<Longrightarrow>
   NextLogSlot (LoggerTask_log_entries es s) = EEPROM_LOG_BASE + 5 * of_nat (length es mod 81)"
  using log_entries_slot[of 0 s es] by simp

text \<open>
  Claim C3 at 81 and at 401 records with alternating codes: the slot is back at the base
  after the 81st record, and at record 77 after the 401st.
\<close>

theorem logger_ring_wraps_after_81_records_witness:
  "NextLogSlot (LoggerTask_log_entries
      (map (\<lambda>n. (of_nat n, if even n then UserLoggedIn else UserLoggedOut)) [0..<81])
      idle_sys) = 0x1600
   \<and>
   NextLogSlot (LoggerTask_log_entries
      (map (\<lambda>n. (of_nat n, if even n then UserLoggedIn else UserLoggedOut)) [0..<401])
      idle_sys) = 0x1781"
proof -
  have b: "NextLogSlot idle_sys = EEPROM_LOG_BASE"
    by (simp add: idle_sys_def EEPROM_LOG_BASE_def)
  show ?thesis
    using logger_ring_wraps_after_81_records[OF b,
        of "map (\<lambda>n. (of_nat n, if even n then UserLoggedIn else UserLoggedOut)) [0..<81]"]
      logger_ring_wraps_after_81_records[OF b,
        of "map (\<lambda>n. (of_nat n, if even n then UserLoggedIn else UserLoggedOut)) [0..<401]"]
    by (simp add: EEPROM_LOG_BASE_def)
qed

section \<open>I2C slave reassembly\<close>

lemma I2C_Mappings_at_low:
  "I2C_Mappings_at 0 = Some (I2C_entry 0x00 0 3 1 [] I2C_WriteReadFromEthernetController)"
  "I2C_Mappings_at 1 = Some (I2C_entry 0x01 0 0 1 [] I2C_SaveSwitchConfiguration)"
  "I2C_Mappings_at 2 = Some (I2C_entry 0x02 0 0 0xFF [] I2C_DownloadSwitchConfiguration)"
  "I2C_Mappings_at 3 = Some (I2C_entry 0x03 0 0 1 [] I2C_ClearSwitchConfiguration)"
  by (simp_all add: I2C_Mappings_at_def I2C_Mappings_def)

lemma replicate_50: "replicate 50 x = x # x # x # x # replicate 46 x"
  by (simp add: numeral_eq_Suc)

lemma replicate_50_upd: "(replicate 50 x)[0 := b] = b # replicate 49 x"
proof -
  have "replicate 50 x = x # replicate 49 x"
    using replicate_Suc[of 49 x] by simp
  then show ?thesis by simp
qed

text \<open>
  Whatever the interrupt, a packet that \<^verbatim>\<open>I2C0SlaveIntHandler\<close> queues holds the byte
  just received and nothing else, at index zero.
\<close>

lemma I2C0SlaveIntHandler_queues_one_byte:
  "I2C0SlaveIntHandler irq st = Returns st' \<Longrightarrow>
   I2CQueue st' = I2CQueue st \<or>
   I2CQueue st' = I2CQueue st @
     [\<lparr>I2CRXBuffer = rx_byte irq # replicate (I2CBUFFERSIZE - 1) 0, I2CRXIndex = 0\<rparr>]"
  by (auto simp add: I2C0SlaveIntHandler_def I2C0SlaveIntHandler_body_def memset_packet_def
      I2CBUFFERSIZE_def Let_def replicate_50_upd split: if_splits option.splits)

text \<open>
  Claim C4 (I2C slave reassembly).  The transaction START, \<open>0x00\<close>, \<open>0x01\<close>,
  \<open>0x02\<close>, \<open>0x03\<close> is command \<open>0x00\<close> (three custom parameters) with its
  parameters.  The handler queues three packets, one for each parameter byte taken as a
  command code, and none for command \<open>0x00\<close>.  Without the \<^verbatim>\<open>memset\<close> the same
  interrupts queue the one packet the claim describes.
\<close>

theorem i2c_reassembly_cleared_every_interrupt:
  "(\<exists>st. I2C_interrupts I2C0SlaveIntHandler
           [irq_start, irq_data 0x00, irq_data 0x01, irq_data 0x02, irq_data 0x03] i2c_idle
         = Returns st \<and>
         map (\<lambda>p. (take 4 (I2CRXBuffer p), I2CRXIndex p)) (I2CQueue st)
         = [([0x01, 0, 0, 0], 0), ([0x02, 0, 0, 0], 0), ([0x03, 0, 0, 0], 0)]) \<and>
   (\<exists>st. I2C_interrupts I2C0SlaveIntHandler_body
           [irq_start, irq_data 0x00, irq_data 0x01, irq_data 0x02, irq_data 0x03] i2c_idle
         = Returns st \<and>
         map (\<lambda>p. (take 4 (I2CRXBuffer p), I2CRXIndex p)) (I2CQueue st)
         = [([0x00, 0x01, 0x02, 0x03], 3)])"
  by (simp add: I2C0SlaveIntHandler_def I2C0SlaveIntHandler_body_def memset_packet_def
      I2CBUFFERSIZE_def I2C_QUEUE_SIZE_def Let_def irq_start_def irq_data_def i2c_idle_def
      I2C_Mappings_at_low I2C_entry_def replicate_50 word_le_nat_alt)

section \<open>Projections of the state after a HAL call\<close>

named_theorems hal_simps

lemma LogItemEEPROM_fields [hal_simps]:
  "eeprom (LogItemEEPROM c s) = eeprom s"
  "eth_out (LogItemEEPROM c s) = eth_out s"
  "eth_reads (LogItemEEPROM c s) = eth_reads s"
  "bus (LogItemEEPROM c s) = bus s"
  "SPI0_taken (LogItemEEPROM c s) = SPI0_taken s"
  "SPI1_taken (LogItemEEPROM c s) = SPI1_taken s"
  "LoggerTaskAlive (LogItemEEPROM c s) = LoggerTaskAlive s"
  "LogStatusFlags (LogItemEEPROM c s) = LogStatusFlags s"
  "NextLogSlot (LogItemEEPROM c s) = NextLogSlot s"
  by (simp_all add: LogItemEEPROM_def)

lemma EthoControllerSingleRead_fields [hal_simps]:
  "fst (EthoControllerSingleRead a s) = ucast (eth_out s (eth_reads s))"
  "eeprom (snd (EthoControllerSingleRead a s)) = eeprom s"
  "eth_out (snd (EthoControllerSingleRead a s)) = eth_out s"
  "eth_reads (snd (EthoControllerSingleRead a s)) = Suc (eth_reads s)"
  "bus (snd (EthoControllerSingleRead a s)) = bus s @ [EthoRead a]"
  "SPI0_taken (snd (EthoControllerSingleRead a s)) = SPI0_taken s"
  "SPI1_taken (snd (EthoControllerSingleRead a s)) = False"
  "LoggerTaskAlive (snd (EthoControllerSingleRead a s)) = LoggerTaskAlive s"
  "LogStatusFlags (snd (EthoControllerSingleRead a s)) = LogStatusFlags s"
  "NextLogSlot (snd (EthoControllerSingleRead a s)) = NextLogSlot s"
  by (simp_all add: EthoControllerSingleRead_def etho_read_cmd_def Let_def xSemaphoreTake_SPI1_def
      xSemaphoreGive_SPI1_def LogItemEEPROM_fields)

lemma EthoControllerSingleWrite_fields [hal_simps]:
  "fst (EthoControllerSingleWrite a v s) = True"
  "eeprom (snd (EthoControllerSingleWrite a v s)) = eeprom s"
  "eth_out (snd (EthoControllerSingleWrite a v s)) = eth_out s"
  "eth_reads (snd (EthoControllerSingleWrite a v s)) = eth_reads s"
  "bus (snd (EthoControllerSingleWrite a v s)) = bus s @ [EthoWrite a v]"
  "SPI0_taken (snd (EthoControllerSingleWrite a v s)) = SPI0_taken s"
  "SPI1_taken (snd (EthoControllerSingleWrite a v s)) = False"
  "LoggerTaskAlive (snd (EthoControllerSingleWrite a v s)) = LoggerTaskAlive s"
  "LogStatusFlags (snd (EthoControllerSingleWrite a v s)) = LogStatusFlags s"
  "NextLogSlot (snd (EthoControllerSingleWrite a v s)) = NextLogSlot s"
  by (simp_all add: EthoControllerSingleWrite_def Let_def xSemaphoreTake_SPI1_def
      xSemaphoreGive_SPI1_def LogItemEEPROM_fields)

lemma EEPROMSingleWrite_fields [hal_simps]:
  "fst (EEPROMSingleWrite a b s) = True"
  "eeprom (snd (EEPROMSingleWrite a b s)) = (eeprom s)(eeprom_cell a := NOT b)"
  "eth_out (snd (EEPROMSingleWrite a b s)) = eth_out s"
  "eth_reads (snd (EEPROMSingleWrite a b s)) = eth_reads s"
  "bus (snd (EEPROMSingleWrite a b s)) = bus s"
  "SPI0_taken (snd (EEPROMSingleWrite a b s)) = False"
  "SPI1_taken (snd (EEPROMSingleWrite a b s)) = SPI1_taken s"
  "LoggerTaskAlive (snd (EEPROMSingleWrite a b s)) = LoggerTaskAlive s"
  "LogStatusFlags (snd (EEPROMSingleWrite a b s)) = LogStatusFlags s"
  "NextLogSlot (snd (EEPROMSingleWrite a b s)) = NextLogSlot s"
  by (simp_all add: EEPROMSingleWrite_def Let_def eeprom_write_cmd_def eeprom_read_cmd_def
      xSemaphoreTake_SPI0_def xSemaphoreGive_SPI0_def LogItemEEPROM_fields)

lemma EEPROMSingleRead_fields [hal_simps]:
  "fst (EEPROMSingleRead a s) = NOT (eeprom s (eeprom_cell a))"
  "eeprom (snd (EEPROMSingleRead a s)) = eeprom s"
  "eth_out (snd (EEPROMSingleRead a s)) = eth_out s"
  "eth_reads (snd (EEPROMSingleRead a s)) = eth_reads s"
  "bus (snd (EEPROMSingleRead a s)) = bus s"
  "SPI0_taken (snd (EEPROMSingleRead a s)) = False"
  "SPI1_taken (snd (EEPROMSingleRead a s)) = SPI1_taken s"
  "LoggerTaskAlive (snd (EEPROMSingleRead a s)) = LoggerTaskAlive s"
  "LogStatusFlags (snd (EEPROMSingleRead a s)) = LogStatusFlags s"
  "NextLogSlot (snd (EEPROMSingleRead a s)) = NextLogSlot s"
  by (simp_all add: EEPROMSingleRead_def Let_def eeprom_read_cmd_def xSemaphoreTake_SPI0_def
      xSemaphoreGive_SPI0_def LogItemEEPROM_fields ucast_not_ucast_u8)

lemma UART_fields [hal_simps]:
  "eeprom (UART m s) = eeprom s"
  "eth_out (UART m s) = eth_out s"
  "eth_reads (UART m s) = eth_reads s"
  "bus (UART m s) = bus s @ [UARTprintf m]"
  "SPI0_taken (UART m s) = SPI0_taken s"
  "SPI1_taken (UART m s) = SPI1_taken s"
  "LoggerTaskAlive (UART m s) = LoggerTaskAlive s"
  "LogStatusFlags (UART m s) = LogStatusFlags s"
  "NextLogSlot (UART m s) = NextLogSlot s"
  by (simp_all add: UART_def)

section \<open>Port monitor pass\<close>

lemma flush_wait_step:
  "PortMonitorTask_flush_wait s =
     (if drop_bit 5 (fst (EthoControllerSingleRead GLOBAL_CONTROL_0_HEX s)) AND 1 \<noteq> 0
      then PortMonitorTask_flush_wait (snd (EthoControllerSingleRead GLOBAL_CONTROL_0_HEX s))
      else Some (snd (EthoControllerSingleRead GLOBAL_CONTROL_0_HEX s)))"
  by (subst PortMonitorTask_flush_wait.simps) (simp add: split_def)

text \<open>
  Claim C7 (port monitor pass).  The interrupt status read is \<open>0x18\<close>: the expansion
  port and the port of bit 3 are both pending.  The pass handles the expansion port (the
  flush bit is polled twice) and ends: bit 3 is neither cleared nor is its status
  register \<open>0x4E\<close> read.
\<close>

theorem monitor_pass_handles_one_bit:
  "\<exists>s'. PortMonitorTask_pass True
           (idle_sys\<lparr>eth_out := replies [0x18, 0x20, 0x00, 0x00, 0x20, 0x00, 0x01]\<rparr>) = Some s' \<and>
        bus s' =
          [EthoRead 0x7C, EthoWrite 0x7C 0x10, EthoRead 0x5E,
           UARTprintf ''[SYSTEM]: Expansion port connected!'',
           EthoRead 0x52, EthoWrite 0x52 0x01,
           EthoRead 0x02, EthoWrite 0x02 0x20, EthoRead 0x02, EthoRead 0x02,
           EthoRead 0x52, EthoWrite 0x52 0x00]"
  by (simp add: PortMonitorTask_pass_def PortMonitorTask_block_def flush_wait_step
      PortMonitorTask_block_begin_def PortMonitorTask_block_end_def split_def Let_def
      hal_simps idle_sys_def replies_def INTERRUPT_STATUS_REGISTER_def GLOBAL_CONTROL_0_HEX_def)

lemma interrupts_cleared_append [simp]:
  "interrupts_cleared (xs @ ys) = interrupts_cleared xs @ interrupts_cleared ys"
  by (induction xs rule: interrupts_cleared.induct) simp_all

lemma flush_wait_cleared:
  "PortMonitorTask_flush_wait s = Some s' \<Longrightarrow>
   interrupts_cleared (bus s') = interrupts_cleared (bus s)"
proof -
  assume a: "PortMonitorTask_flush_wait s = Some s'"
  show ?thesis
    by (rule PortMonitorTask_flush_wait.raw_induct
          [where P = "\<lambda>x y. interrupts_cleared (bus y) = interrupts_cleared (bus x)", OF _ a])
       (auto simp add: split_def hal_simps INTERRUPT_STATUS_REGISTER_def
          GLOBAL_CONTROL_0_HEX_def split: if_splits)
qed

lemma block_begin_cleared:
  "sr \<noteq> INTERRUPT_STATUS_REGISTER \<Longrightarrow> lr \<noteq> INTERRUPT_STATUS_REGISTER \<Longrightarrow>
   interrupts_cleared (bus (PortMonitorTask_block_begin b sr lr nm s)) =
   interrupts_cleared (bus s) @ [b]"
  by (simp add: PortMonitorTask_block_begin_def Let_def split_def hal_simps
      GLOBAL_CONTROL_0_HEX_def INTERRUPT_STATUS_REGISTER_def)

lemma block_end_cleared:
  "lr \<noteq> INTERRUPT_STATUS_REGISTER \<Longrightarrow>
   interrupts_cleared (bus (PortMonitorTask_block_end lr s)) = interrupts_cleared (bus s)"
  by (simp add: PortMonitorTask_block_end_def Let_def split_def hal_simps)

lemma block_cleared:
  assumes blk: "PortMonitorTask_block b sr lr nm (flags, s) = Some (flags', s')"
    and sr: "sr \<noteq> INTERRUPT_STATUS_REGISTER" and lr: "lr \<noteq> INTERRUPT_STATUS_REGISTER"
  shows "if flags AND b \<noteq> 0
         then flags' = b \<and> interrupts_cleared (bus s') = interrupts_cleared (bus s) @ [b]
         else flags' = flags \<and> s' = s"
proof (cases "flags AND b = 0")
  case True
  with blk show ?thesis by (simp add: PortMonitorTask_block_def)
next
  case False
  with blk obtain s8 where
    w: "PortMonitorTask_flush_wait (PortMonitorTask_block_begin b sr lr nm s) = Some s8" and
    s': "s' = PortMonitorTask_block_end lr s8" and f: "flags' = b"
    by (auto simp add: PortMonitorTask_block_def split: option.splits)
  from flush_wait_cleared[OF w] False s' f show ?thesis
    by (simp add: block_begin_cleared[OF sr lr] block_end_cleared[OF lr])
qed

text \<open>
  In one pass the interrupt status register is written at most once: the value written
  is the first of \<open>0x10\<close>, \<open>0x08\<close>, \<open>0x04\<close>, \<open>0x02\<close>, \<open>0x01\<close> that is set in the
  status read, and no other pending bit is handled.
\<close>

lemma monitor_pass_clears_first_bit_only:
  assumes "PortMonitorTask_pass True s = Some s'"
  shows "interrupts_cleared (bus s') = interrupts_cleared (bus s) @
           (let flags = (ucast (eth_out s (eth_reads s)) :: u32) in
            if flags AND 0x10 \<noteq> 0 then [0x10]
            else if flags AND 0x08 \<noteq> 0 then [0x08]
            else if flags AND 0x04 \<noteq> 0 then [0x04]
            else if flags AND 0x02 \<noteq> 0 then [0x02]
            else if flags AND 0x01 \<noteq> 0 then [0x01]
            else [])"
proof -
  define flags where "flags = (ucast (eth_out s (eth_reads s)) :: u32)"
  obtain s1 where r: "EthoControllerSingleRead INTERRUPT_STATUS_REGISTER s = (flags, s1)"
    and b1: "interrupts_cleared (bus s1) = interrupts_cleared (bus s)"
    by (cases "EthoControllerSingleRead INTERRUPT_STATUS_REGISTER s")
       (use EthoControllerSingleRead_fields(1,5)[of INTERRUPT_STATUS_REGISTER s] in
         \<open>simp add: flags_def\<close>)
  from assms r obtain f1 t1 f2 t2 f3 t3 f4 t4 f5 where
    k1: "PortMonitorTask_block 0x10 0x5E 0x52 ''Expansion port'' (flags, s1) = Some (f1, t1)" and
    k2: "PortMonitorTask_block 0x08 0x4E 0x42 ''Port 0'' (f1, t1) = Some (f2, t2)" and
    k3: "PortMonitorTask_block 0x04 0x3E 0x32 ''Port 1'' (f2, t2) = Some (f3, t3)" and
    k4: "PortMonitorTask_block 0x02 0x2E 0x22 ''Port 2'' (f3, t3) = Some (f4, t4)" and
    k5: "PortMonitorTask_block 0x01 0x1E 0x12 ''Port 3'' (f4, t4) = Some (f5, s')"
    by (auto simp add: PortMonitorTask_pass_def split: option.splits)
  note c1 = block_cleared[OF k1] and c2 = block_cleared[OF k2] and c3 = block_cleared[OF k3]
    and c4 = block_cleared[OF k4] and c5 = block_cleared[OF k5]
  have n: "(0x10::u32) AND 0x08 = 0" "(0x10::u32) AND 0x04 = 0" "(0x10::u32) AND 0x02 = 0"
    "(0x10::u32) AND 0x01 = 0" "(0x08::u32) AND 0x04 = 0" "(0x08::u32) AND 0x02 = 0"
    "(0x08::u32) AND 0x01 = 0" "(0x04::u32) AND 0x02 = 0" "(0x04::u32) AND 0x01 = 0"
    "(0x02::u32) AND 0x01 = 0"
    by simp_all
  show ?thesis
    unfolding flags_def[symmetric] Let_def
    using c1 c2 c3 c4 c5 b1 n
    by (simp add: INTERRUPT_STATUS_REGISTER_def split: if_splits)
qed

section \<open>LinkMD distance\<close>

lemma round_half_even_cases:
  "round_half_even q = \<lfloor>q\<rfloor> \<or>
   (round_half_even q = \<lfloor>q\<rfloor> + 1 \<and> 1 / 2 \<le> q - of_int \<lfloor>q\<rfloor>)"
  by (auto simp add: round_half_even_def Let_def not_less)

lemma round_half_even_bounds:
  "\<lfloor>q\<rfloor> \<le> round_half_even q" "of_int (round_half_even q) \<le> q + 1 / 2"
proof -
  have f: "of_int \<lfloor>q\<rfloor> \<le> q" by (rule of_int_floor_le)
  from round_half_even_cases[of q] show "\<lfloor>q\<rfloor> \<le> round_half_even q"
    by auto
  from round_half_even_cases[of q] show "of_int (round_half_even q) \<le> q + 1 / 2"
  proof
    assume "round_half_even q = \<lfloor>q\<rfloor>"
    with f show ?thesis by linarith
  next
    assume h: "round_half_even q = \<lfloor>q\<rfloor> + 1 \<and> 1 / 2 \<le> q - of_int \<lfloor>q\<rfloor>"
    then have "(of_int (round_half_even q) :: rat) = of_int \<lfloor>q\<rfloor> + 1" by simp
    with h show ?thesis by linarith
  qed
qed

lemma ilog2_le_30:
  assumes "0 < x" "x < 2 ^ 31"
  shows "ilog2 x \<le> 30"
proof (cases "x \<ge> 1")
  case True
  then have pos: "0 < \<lfloor>x\<rfloor>" by simp
  have "\<lfloor>x\<rfloor> < 2 ^ 31"
    using assms(2) by (simp add: floor_less_iff)
  with bitlen_bounds[OF pos] have h: "(2::int) ^ nat (bitlen \<lfloor>x\<rfloor> - 1) < 2 ^ 31" by linarith
  have "nat (bitlen \<lfloor>x\<rfloor> - 1) < 31"
    by (rule power_less_imp_less_exp[OF _ h]) simp
  then show ?thesis using True by (simp add: ilog2_def)
next
  case False
  then show ?thesis
    using bitlen_nonneg[of "\<lceil>1 / x\<rceil> - 1"] by (simp add: ilog2_def)
qed

lemma double_0_4_times:
  "double_0_4 * of_nat n = of_nat (2 * n) / 5 + of_nat n / (5 * 2 ^ 53)"
  by (simp add: double_0_4_def field_simps)

lemma double_mult_0_4_floor:
  assumes n: "n < 2 ^ 32"
  shows "\<lfloor>double_round (double_0_4 * of_nat n)\<rfloor> = int ((2 * n) div 5)"
proof (cases "n = 0")
  case True
  then show ?thesis by (simp add: double_round_def)
next
  case False
  define x :: rat where "x = double_0_4 * of_nat n"
  define k where "k = (2 * n) div 5"
  define a :: rat where "a = of_nat ((2 * n) mod 5) / 5"
  define b :: rat where "b = of_nat n / (5 * 2 ^ 53)"
  have "(of_nat (2 * n) :: rat) = of_nat (5 * k + (2 * n) mod 5)"
    by (simp add: k_def)
  then have q25: "(of_nat (2 * n) :: rat) / 5 = of_nat k + a"
    by (simp add: a_def field_simps)
  have x_eq: "x = of_nat k + a + b"
    by (simp only: x_def double_0_4_times q25 b_def)
  have "(of_nat ((2 * n) mod 5) :: rat) \<le> of_nat 4"
    by (subst of_nat_le_iff) simp
  then have a: "0 \<le> a" "a \<le> 4 / 5"
    by (simp_all add: a_def)
  have "(of_nat n :: rat) < of_nat (2 ^ 32)"
    using n by (subst of_nat_less_iff)
  then have nb: "(of_nat n :: rat) < 2 ^ 32" by simp
  have n0: "(0 :: rat) < of_nat n" using False by simp
  have b: "0 \<le> b" "b < 1 / (5 * 2 ^ 21)"
    using nb by (simp_all add: b_def field_simps)
  have lo: "of_nat k \<le> x"
    using a b by (simp add: x_eq)
  have hi: "x < of_nat k + 4 / 5 + 1 / (5 * 2 ^ 21)"
    using a b by (simp add: x_eq)
  have xpos: "0 < x" using n0 by (simp add: x_def double_0_4_def)
  have kb: "(of_nat k :: rat) < 2 ^ 31 - 1"
  proof -
    have "k < 2 ^ 31 - 1" using n by (simp add: k_def)
    then have "(of_nat k :: rat) < of_nat (2 ^ 31 - 1)"
      by (subst of_nat_less_iff)
    then show ?thesis by simp
  qed
  have "x < 2 ^ 31" using hi kb by simp
  from ilog2_le_30[OF xpos this] have e: "ilog2 x - 52 < 0" "22 \<le> nat (52 - ilog2 x)"
    by simp_all
  define J where "J = nat (52 - ilog2 x)"
  have J: "22 \<le> J" using e by (simp add: J_def)
  have u: "pow2 (ilog2 x - 52) = 1 / 2 ^ J"
  proof -
    have "nat (- (ilog2 x - 52)) = J" by (simp add: J_def)
    then show ?thesis using e(1) by (simp add: pow2_def)
  qed
  define m where "m = round_half_even (x * 2 ^ J)"
  have y: "double_round x = of_int m / 2 ^ J"
    using xpos by (simp add: double_round_def Let_def u m_def)
  have "of_int (int k * 2 ^ J) \<le> x * 2 ^ J"
    using lo by (simp add: mult_right_mono)
  then have "int k * 2 ^ J \<le> \<lfloor>x * 2 ^ J\<rfloor>"
    by (simp add: le_floor_iff)
  also have "\<dots> \<le> m"
    by (simp add: m_def round_half_even_bounds(1))
  finally have "(of_int (int k * 2 ^ J) :: rat) \<le> of_int m"
    by (subst of_int_le_iff)
  then have ylo: "of_int (int k) \<le> double_round x"
    by (simp add: y field_simps)
  have p22: "(2 :: rat) ^ 22 \<le> 2 ^ J"
    by (rule power_increasing[OF J]) simp
  have "of_int m \<le> x * 2 ^ J + 1 / 2"
    by (simp add: m_def round_half_even_bounds(2))
  then have "double_round x \<le> x + 1 / (2 * 2 ^ J)"
    by (simp add: y field_simps)
  also have "\<dots> \<le> x + 1 / (2 * 2 ^ 22)"
    using p22 by (simp add: frac_le)
  also have "\<dots> < of_int (int k) + 1"
    using hi by simp
  finally have yhi: "double_round x < of_int (int k) + 1" .
  from ylo yhi have "\<lfloor>double_round x\<rfloor> = int k"
    by (simp add: floor_unique)
  then show ?thesis by (simp add: x_def k_def)
qed

lemma LinkMD_fault_distance_trunc:
  "LinkMD_fault_distance reg_data = of_nat ((2 * unat (reg_data - 26)) div 5)"
proof -
  have "unat (reg_data - 26) < 2 ^ 32"
    using unsigned_less[of "reg_data - 26", where 'a = nat] by simp
  from double_mult_0_4_floor[OF this] show ?thesis
    by (simp add: LinkMD_fault_distance_def)
qed


lemma COM_RunCableDiagnostics_poll_step:
  "COM_RunCableDiagnostics_poll linkmd0 reg_data retry_attempts s =
     (if fst (EthoControllerSingleRead linkmd0 s) \<noteq> reg_data then
        (if retry_attempts + 1 > 10 then (False, snd (EthoControllerSingleRead linkmd0 s))
         else COM_RunCableDiagnostics_poll linkmd0 reg_data (retry_attempts + 1)
                (snd (EthoControllerSingleRead linkmd0 s)))
      else (True, snd (EthoControllerSingleRead linkmd0 s)))"
  by (subst COM_RunCableDiagnostics_poll.simps) (simp add: split_def)

text \<open>
  A run of the handler on logical port 1 (base \<open>0x40\<close>): the poll ends at its second
  read, the cable state is "open", bit 0 of LinkMD register 0 is set and LinkMD register 1
  reads \<open>0x7D\<close>, so that the distance value is 126.  The distance printed is 40.
\<close>

lemma COM_RunCableDiagnostics_run:
  "fst (COM_RunCableDiagnostics 0x40
     (idle_sys\<lparr>eth_out := replies [0x00, 0x00, 0x00, 0x10, 0x00, 0x20, 0x21, 0x7D, 0x80, 0x04]\<rparr>))
   \<and>
   bus (snd (COM_RunCableDiagnostics 0x40
     (idle_sys\<lparr>eth_out := replies [0x00, 0x00, 0x00, 0x10, 0x00, 0x20, 0x21, 0x7D, 0x80, 0x04]\<rparr>)))
   = [UARTprintf ''[RUNNING TASK]: Running Link MD for selected port, please wait... '',
      EthoRead 0x4C, EthoWrite 0x4C 0x80, EthoRead 0x4D, EthoWrite 0x4D 0x04,
      EthoRead 0x4A, EthoWrite 0x4A 0x10, EthoRead 0x4A, EthoRead 0x4A,
      EthoRead 0x4A, EthoRead 0x4A, EthoRead 0x4B,
      EthoRead 0x4C, EthoWrite 0x4C 0x00, EthoRead 0x4D, EthoWrite 0x4D 0x00,
      UARTprintf ''LINK CABLE: Open Detected In Cable'',
      UARTprintf_d ''DISTANCE TO FAULT: %d'' 40]"
  by (simp add: COM_RunCableDiagnostics_def COM_RunCableDiagnostics_poll_step split_def Let_def
      hal_simps idle_sys_def replies_def PORT_CONTROL5_OFFSET_HEX_def PORT_CONTROL6_OFFSET_HEX_def
      PORT_LINKMD0_OFFSET_HEX_def PORT_LINKMD1_OFFSET_HEX_def LinkMD_fault_distance_trunc)




end
